theory Spec2Isabelle
  imports Main "HOL-Library.Monad_Syntax" "HOL-Library.Word"
begin

section \<open>The scroll result parser of elasticlient\<close>

text \<open>
  The development embeds \<^verbatim>\<open>parseScrollResult\<close> of
  \<^verbatim>\<open>include/elasticlient/scroll-parser.h\<close>. The function parses the body of
  a scroll response with rapidjson, checks the fields \<^verbatim>\<open>error\<close>,
  \<^verbatim>\<open>timed_out\<close>, \<^verbatim>\<open>_shards\<close>, \<^verbatim>\<open>hits\<close> and
  \<^verbatim>\<open>_scroll_id\<close> in that order, and returns a \<^verbatim>\<open>bool\<close>. It writes two
  out-parameters: the parsed document and the scroll id.
\<close>

subsection \<open>The rapidjson value tree\<close>

text \<open>
  A \<^verbatim>\<open>rapidjson::Value\<close> is one of null, a boolean, a number, a string, an array or
  an object. A number is kept either in one of the integer representations (its mathematical
  value is the argument of \<open>JInt\<close>) or as a double (\<open>JDouble\<close>, the 64 bits of the IEEE
  encoding; every number written with a fraction or an exponent, and every integer too large
  for 64 bits, is a double). A string carries its length, so it may contain the character
  NUL. An object is the list of its members in document order; a name may occur twice.
\<close>

datatype json =
    JNull
  | JBool bool
  | JInt int
  | JDouble "64 word"
  | JString string
  | JArray "json list"
  | JObject "(string \<times> json) list"

fun IsObject :: "json \<Rightarrow> bool" where
  "IsObject (JObject ms) = True"
| "IsObject _ = False"

fun IsArray :: "json \<Rightarrow> bool" where
  "IsArray (JArray xs) = True"
| "IsArray _ = False"

fun IsString :: "json \<Rightarrow> bool" where
  "IsString (JString s) = True"
| "IsString _ = False"

fun IsBool :: "json \<Rightarrow> bool" where
  "IsBool (JBool b) = True"
| "IsBool _ = False"

text \<open>
  \<^verbatim>\<open>IsInt()\<close> tests the flag that rapidjson sets on a number stored as an integer
  whose value fits \<^verbatim>\<open>int32_t\<close>; \<^verbatim>\<open>GetInt()\<close> then returns that value as
  a C \<^verbatim>\<open>int\<close> of 32 bits, read here with \<open>sint\<close>.
\<close>

fun IsInt :: "json \<Rightarrow> bool" where
  "IsInt (JInt i) = (- (2 ^ 31) \<le> i \<and> i < 2 ^ 31)"
| "IsInt _ = False"

text \<open>
  The accessors below have preconditions that rapidjson checks with
  \<^verbatim>\<open>RAPIDJSON_ASSERT\<close>: \<^verbatim>\<open>HasMember\<close> and \<^verbatim>\<open>operator[]\<close> require an
  object (and \<^verbatim>\<open>operator[]\<close> an existing member), the getters require the matching
  type. \<open>None\<close> is the failed assertion: the process aborts, or, when assertions are
  compiled out, the behaviour is undefined. \<^verbatim>\<open>FindMember\<close> searches the members in
  order, so the first member of a name is the one found.
\<close>

fun HasMember :: "string \<Rightarrow> json \<Rightarrow> bool option" where
  "HasMember name (JObject ms) = Some (map_of ms name \<noteq> None)"
| "HasMember name _ = None"

fun subscript :: "string \<Rightarrow> json \<Rightarrow> json option" where
  "subscript name (JObject ms) = map_of ms name"
| "subscript name _ = None"

fun GetBool :: "json \<Rightarrow> bool option" where
  "GetBool (JBool b) = Some b"
| "GetBool _ = None"

fun GetInt :: "json \<Rightarrow> 32 word option" where
  "GetInt (JInt i) = (if IsInt (JInt i) then Some (word_of_int i) else None)"
| "GetInt _ = None"

fun GetString :: "json \<Rightarrow> string option" where
  "GetString (JString s) = Some s"
| "GetString _ = None"

subsection \<open>C strings\<close>

text \<open>
  \<^verbatim>\<open>result.c_str()\<close> hands the parser a \<^verbatim>\<open>const char*\<close>, and
  \<^verbatim>\<open>GetString()\<close> returns one that is assigned to a \<^verbatim>\<open>std::string\<close>.
  Whoever reads such a pointer sees the characters before the first NUL.
\<close>

definition c_str :: "string \<Rightarrow> string" where
  "c_str s = takeWhile (\<lambda>c. c \<noteq> CHR 0x00) s"

subsection \<open>The out-parameters\<close>

text \<open>
  \<^verbatim>\<open>JsonResult\<close> (declared in \<^verbatim>\<open>elasticlient/scroll.h\<close>) wraps a
  \<^verbatim>\<open>rapidjson::Document\<close>. The caller passes a
  \<^verbatim>\<open>std::unique_ptr<JsonResult>\<close> (\<open>None\<close> is the null pointer) and a
  \<^verbatim>\<open>std::string\<close> by reference.
\<close>

record JsonResult =
  document :: json

record out_params =
  parsedResult :: "JsonResult option"
  scrollId :: string

subsection \<open>The parser\<close>

text \<open>
  \<^verbatim>\<open>rapidjson::Document::Parse\<close> is a library function. It is a parameter of the
  model: applied to the text, it gives the \<^verbatim>\<open>ParseResult\<close> read as a boolean and
  the value the freshly constructed document holds afterwards.
\<close>

type_synonym parser = "string \<Rightarrow> bool \<times> json"

subsection \<open>parseScrollResult\<close>

text \<open>
  Every \<^verbatim>\<open>return\<close> statement of the function is a constructor, named after the
  comment the source puts before it:
  \<^item> \<open>Ret_weird\<close>, line 45, ``something is weird, only report error'';
  \<^item> \<open>Ret_error_reported\<close>, line 52, ``an error was reported'';
  \<^item> \<open>Ret_timed_out\<close>, line 60, ``request timed out'';
  \<^item> \<open>Ret_failed_shards\<close>, line 71, ``failed shards, do not trust the data'';
  \<^item> \<open>Ret_no_failed_info\<close>, line 75, ``no information about failed shards'';
  \<^item> \<open>Ret_no_shards_info\<close>, line 79, ``no information about shards'';
  \<^item> \<open>Ret_success\<close>, line 89, the only \<^verbatim>\<open>return true\<close>;
  \<^item> \<open>Ret_missing_scroll_id\<close>, line 92, ``missing _scroll_id'';
  \<^item> \<open>Ret_not_ok\<close>, line 97, ``scroll response is not ok''.
\<close>

datatype return_site =
    Ret_weird
  | Ret_error_reported
  | Ret_timed_out
  | Ret_failed_shards
  | Ret_no_failed_info
  | Ret_no_shards_info
  | Ret_success
  | Ret_missing_scroll_id
  | Ret_not_ok

fun returned :: "return_site \<Rightarrow> bool" where
  "returned Ret_success = True"
| "returned _ = False"

text \<open>
  The blocks on \<^verbatim>\<open>error\<close> and \<^verbatim>\<open>timed_out\<close> have one shape:
  \<^verbatim>\<open>if (d.HasMember(name)) { const Value &v = d[name]; if (!v.IsBool() || v.GetBool()) return false; }\<close>.
  \<open>not_false\<close> is the inner condition (the getter is only reached for a boolean), and
  \<open>member_not_false\<close> tells whether the block returns.
\<close>

definition not_false :: "json \<Rightarrow> bool option" where
  "not_false v = (if \<not> IsBool v then Some True else GetBool v)"

definition member_not_false :: "string \<Rightarrow> json \<Rightarrow> bool option" where
  "member_not_false name d =
     do { h \<leftarrow> HasMember name d;
          if h then do { v \<leftarrow> subscript name d; not_false v } else Some False }"

text \<open>
  \<^verbatim>\<open>v.HasMember(name) && P(v[name])\<close>, the shape of the tests on
  \<^verbatim>\<open>_shards\<close>, \<^verbatim>\<open>failed\<close>, the inner \<^verbatim>\<open>hits\<close> and
  \<^verbatim>\<open>_scroll_id\<close>; the subscript is only evaluated when the member exists.
\<close>

definition has_member_with :: "(json \<Rightarrow> bool) \<Rightarrow> string \<Rightarrow> json \<Rightarrow> bool option" where
  "has_member_with P name v =
     do { h \<leftarrow> HasMember name v;
          if h then do { x \<leftarrow> subscript name v; Some (P x) } else Some False }"

text \<open>
  The body, statement by statement. The result is the \<^verbatim>\<open>return\<close> statement reached
  and the out-parameters at that point, or \<open>None\<close> when a rapidjson assertion fails on the
  way.
\<close>

definition parseScrollResult_at ::
    "parser \<Rightarrow> string \<Rightarrow> out_params \<Rightarrow> (return_site \<times> out_params) option" where
  "parseScrollResult_at Parse result st0 =
    (let st1 = st0\<lparr>parsedResult := Some \<lparr>document = JNull\<rparr>\<rparr>;
         (ok, doc) = Parse (c_str result);
         st = st1\<lparr>parsedResult := Some \<lparr>document = doc\<rparr>\<rparr>
     in
     if \<not> ok \<or> \<not> IsObject doc then Some (Ret_weird, st)
     else do {
       reported \<leftarrow> member_not_false ''error'' doc;
       if reported then Some (Ret_error_reported, st)
       else do {
         timed_out \<leftarrow> member_not_false ''timed_out'' doc;
         if timed_out then Some (Ret_timed_out, st)
         else do {
           shards_ok \<leftarrow> has_member_with IsObject ''_shards'' doc;
           if \<not> shards_ok then Some (Ret_no_shards_info, st)
           else do {
             shards \<leftarrow> subscript ''_shards'' doc;
             failed_ok \<leftarrow> has_member_with IsInt ''failed'' shards;
             if \<not> failed_ok then Some (Ret_no_failed_info, st)
             else do {
               failed_value \<leftarrow> subscript ''failed'' shards;
               failed \<leftarrow> GetInt failed_value;
               if 0 < sint failed then Some (Ret_failed_shards, st)
               else do {
                 has_hits \<leftarrow> HasMember ''hits'' doc;
                 if \<not> has_hits then Some (Ret_not_ok, st)
                 else do {
                   hits \<leftarrow> subscript ''hits'' doc;
                   hits_ok \<leftarrow> has_member_with IsArray ''hits'' hits;
                   if \<not> hits_ok then Some (Ret_not_ok, st)
                   else do {
                     scroll_ok \<leftarrow> has_member_with IsString ''_scroll_id'' doc;
                     if \<not> scroll_ok then Some (Ret_missing_scroll_id, st)
                     else do {
                       scroll_value \<leftarrow> subscript ''_scroll_id'' doc;
                       s \<leftarrow> GetString scroll_value;
                       Some (Ret_success, st\<lparr>scrollId := c_str s\<rparr>)
                     }
                   }
                 }
               }
             }
           }
         }
       }
     })"

text \<open>
  What the caller observes: the returned \<^verbatim>\<open>bool\<close> and the out-parameters.
\<close>

definition parseScrollResult ::
    "parser \<Rightarrow> string \<Rightarrow> out_params \<Rightarrow> (bool \<times> out_params) option" where
  "parseScrollResult Parse result st0 =
     map_option (\<lambda>(site, st). (returned site, st)) (parseScrollResult_at Parse result st0)"

subsection \<open>The checks as gates\<close>

text \<open>
  For the statements below, every check of the body is read by itself, as a function of the
  parse result or of the members of the root object. A gate passes, or fails with the
  \<^verbatim>\<open>return\<close> statement it takes, or aborts on a rapidjson assertion.
  \<^item> \<open>parse_gate\<close>: line 43.
  \<^item> \<open>flag_raised\<close>: lines 48 to 54 for \<^verbatim>\<open>error\<close>, lines 56 to 62 for
    \<^verbatim>\<open>timed_out\<close>; the member exists and is not the boolean false.
  \<^item> \<open>shard_gate\<close>: lines 64 to 80.
  \<^item> \<open>hits_gate\<close>: lines 82 to 85 and 94 to 97; \<^verbatim>\<open>hits.HasMember("hits")\<close> is
    called without a test that \<^verbatim>\<open>hits\<close> is an object.
  \<^item> \<open>scroll_gate\<close>: lines 86 to 92.
\<close>

datatype gate_result = Pass | Fail return_site | Abort

definition parse_gate :: "bool \<times> json \<Rightarrow> gate_result" where
  "parse_gate p = (if fst p \<and> IsObject (snd p) then Pass else Fail Ret_weird)"

definition flag_raised :: "string \<Rightarrow> (string \<times> json) list \<Rightarrow> bool" where
  "flag_raised name ms =
     (case map_of ms name of None \<Rightarrow> False | Some v \<Rightarrow> v \<noteq> JBool False)"

definition flag_gate :: "string \<Rightarrow> return_site \<Rightarrow> (string \<times> json) list \<Rightarrow> gate_result" where
  "flag_gate name site ms = (if flag_raised name ms then Fail site else Pass)"

definition shard_gate :: "(string \<times> json) list \<Rightarrow> gate_result" where
  "shard_gate ms =
     (case map_of ms ''_shards'' of
        Some (JObject ss) \<Rightarrow>
          (case map_of ss ''failed'' of
             Some (JInt i) \<Rightarrow>
               if - (2 ^ 31) \<le> i \<and> i < 2 ^ 31
               then (if 0 < i then Fail Ret_failed_shards else Pass)
               else Fail Ret_no_failed_info
           | _ \<Rightarrow> Fail Ret_no_failed_info)
      | _ \<Rightarrow> Fail Ret_no_shards_info)"

definition hits_gate :: "(string \<times> json) list \<Rightarrow> gate_result" where
  "hits_gate ms =
     (case map_of ms ''hits'' of
        None \<Rightarrow> Fail Ret_not_ok
      | Some (JObject hs) \<Rightarrow>
          (case map_of hs ''hits'' of
             Some (JArray xs) \<Rightarrow> Pass
           | _ \<Rightarrow> Fail Ret_not_ok)
      | Some _ \<Rightarrow> Abort)"

definition scroll_gate :: "(string \<times> json) list \<Rightarrow> gate_result" where
  "scroll_gate ms =
     (case map_of ms ''_scroll_id'' of
        Some (JString s) \<Rightarrow> Pass
      | _ \<Rightarrow> Fail Ret_missing_scroll_id)"

fun members :: "json \<Rightarrow> (string \<times> json) list" where
  "members (JObject ms) = ms"
| "members _ = []"

definition gates :: "bool \<times> json \<Rightarrow> gate_result list" where
  "gates p =
     [parse_gate p,
      flag_gate ''error'' Ret_error_reported (members (snd p)),
      flag_gate ''timed_out'' Ret_timed_out (members (snd p)),
      shard_gate (members (snd p)),
      hits_gate (members (snd p)),
      scroll_gate (members (snd p))]"

text \<open>
  The outcome of a list of gates taken in order: the first gate that does not pass decides,
  and the gates behind it are not looked at.
\<close>

fun first_failure :: "gate_result list \<Rightarrow> return_site option" where
  "first_failure [] = Some Ret_success"
| "first_failure (Pass # gs) = first_failure gs"
| "first_failure (Fail site # gs) = Some site"
| "first_failure (Abort # gs) = None"

text \<open>
  The out-parameters at a \<^verbatim>\<open>return\<close>: \<open>entered\<close> after lines 40 to 42, and
  \<open>exit_state\<close> with the assignment of line 88 on the successful path.
\<close>

definition entered :: "json \<Rightarrow> out_params \<Rightarrow> out_params" where
  "entered doc st0 = st0\<lparr>parsedResult := Some \<lparr>document = doc\<rparr>\<rparr>"

definition scroll_token :: "(string \<times> json) list \<Rightarrow> string" where
  "scroll_token ms = (case map_of ms ''_scroll_id'' of Some (JString s) \<Rightarrow> c_str s | _ \<Rightarrow> [])"

definition exit_state :: "return_site \<Rightarrow> json \<Rightarrow> out_params \<Rightarrow> out_params" where
  "exit_state site doc st0 =
     (if site = Ret_success then (entered doc st0)\<lparr>scrollId := scroll_token (members doc)\<rparr>
      else entered doc st0)"

text \<open>
  The three trailing fragments of the body, each with the rest of the body as \<open>k\<close>, so that
  each can be analysed by itself.
\<close>

definition shard_part ::
    "(string \<times> json) list \<Rightarrow> out_params \<Rightarrow> (return_site \<times> out_params) option
      \<Rightarrow> (return_site \<times> out_params) option" where
  "shard_part ms st k =
     do {
       shards_ok \<leftarrow> has_member_with IsObject ''_shards'' (JObject ms);
       if \<not> shards_ok then Some (Ret_no_shards_info, st)
       else do {
         shards \<leftarrow> subscript ''_shards'' (JObject ms);
         failed_ok \<leftarrow> has_member_with IsInt ''failed'' shards;
         if \<not> failed_ok then Some (Ret_no_failed_info, st)
         else do {
           failed_value \<leftarrow> subscript ''failed'' shards;
           failed \<leftarrow> GetInt failed_value;
           if 0 < sint failed then Some (Ret_failed_shards, st)
           else k
         }
       }
     }"

definition hits_part ::
    "(string \<times> json) list \<Rightarrow> out_params \<Rightarrow> (return_site \<times> out_params) option
      \<Rightarrow> (return_site \<times> out_params) option" where
  "hits_part ms st k =
     do {
       has_hits \<leftarrow> HasMember ''hits'' (JObject ms);
       if \<not> has_hits then Some (Ret_not_ok, st)
       else do {
         hits \<leftarrow> subscript ''hits'' (JObject ms);
         hits_ok \<leftarrow> has_member_with IsArray ''hits'' hits;
         if \<not> hits_ok then Some (Ret_not_ok, st)
         else k
       }
     }"

definition scroll_part ::
    "(string \<times> json) list \<Rightarrow> out_params \<Rightarrow> (return_site \<times> out_params) option" where
  "scroll_part ms st =
     do {
       scroll_ok \<leftarrow> has_member_with IsString ''_scroll_id'' (JObject ms);
       if \<not> scroll_ok then Some (Ret_missing_scroll_id, st)
       else do {
         scroll_value \<leftarrow> subscript ''_scroll_id'' (JObject ms);
         s \<leftarrow> GetString scroll_value;
         Some (Ret_success, st\<lparr>scrollId := c_str s\<rparr>)
       }
     }"

subsection \<open>Response bodies and their documents\<close>

text \<open>
  The bodies used as concrete inputs, each with the tree a JSON parser builds from it. The
  first four are the scenarios E1, E2, E3 and E6 of the specification.
\<close>

definition hits_empty :: json where
  "hits_empty = JObject [(''hits'', JArray [])]"

definition failed_is :: "int \<Rightarrow> json" where
  "failed_is i = JObject [(''failed'', JInt i)]"

definition E1_text :: string where
  \<open>E1_text = ''{"hits":{"hits":[]}, "_shards":{"failed":0}, "_scroll_id":"abc123"}''\<close>

definition E1_doc :: json where
  "E1_doc = JObject [(''hits'', hits_empty), (''_shards'', failed_is 0),
     (''_scroll_id'', JString ''abc123'')]"

definition E2_text :: string where
  \<open>E2_text = ''{"error":true}''\<close>

definition E2_doc :: json where
  "E2_doc = JObject [(''error'', JBool True)]"

definition E3_text :: string where
  \<open>E3_text = ''{"_shards":{"failed":1}}''\<close>

definition E3_doc :: json where
  "E3_doc = JObject [(''_shards'', failed_is 1)]"

definition E6_text :: string where
  \<open>E6_text = ''{"timed_out":true, "_shards":{"failed":0}, "hits":{"hits":[]}, "_scroll_id":"x"}''\<close>

definition E6_doc :: json where
  "E6_doc = JObject [(''timed_out'', JBool True), (''_shards'', failed_is 0),
     (''hits'', hits_empty), (''_scroll_id'', JString ''x'')]"

definition error_failed_text :: string where
  \<open>error_failed_text = ''{"error":true,"_shards":{"failed":1}}''\<close>

definition error_failed_doc :: json where
  "error_failed_doc = JObject [(''error'', JBool True), (''_shards'', failed_is 1)]"

definition error_no_shards_text :: string where
  \<open>error_no_shards_text = ''{"error":true,"hits":{"hits":[]},"_scroll_id":"abc"}''\<close>

definition error_no_shards_doc :: json where
  "error_no_shards_doc = JObject [(''error'', JBool True), (''hits'', hits_empty),
     (''_scroll_id'', JString ''abc'')]"

definition no_shards_text :: string where
  \<open>no_shards_text = ''{"hits":{"hits":[]},"_scroll_id":"abc"}''\<close>

definition no_shards_doc :: json where
  "no_shards_doc = JObject [(''hits'', hits_empty), (''_scroll_id'', JString ''abc'')]"

definition no_failed_text :: string where
  \<open>no_failed_text = ''{"_shards":{},"hits":{"hits":[]},"_scroll_id":"abc"}''\<close>

definition no_failed_doc :: json where
  "no_failed_doc = JObject [(''_shards'', JObject []), (''hits'', hits_empty),
     (''_scroll_id'', JString ''abc'')]"

definition hits_string_text :: string where
  \<open>hits_string_text = ''{"_shards":{"failed":0},"hits":"x","_scroll_id":"abc"}''\<close>

definition hits_string_doc :: json where
  "hits_string_doc = JObject [(''_shards'', failed_is 0), (''hits'', JString ''x''),
     (''_scroll_id'', JString ''abc'')]"

definition error_false_text :: string where
  \<open>error_false_text = ''{"error":false,"timed_out":true}''\<close>

definition error_false_doc :: json where
  "error_false_doc = JObject [(''error'', JBool False), (''timed_out'', JBool True)]"

definition big_failed_text :: string where
  \<open>big_failed_text = ''{"_shards":{"failed":2147483648},"hits":{"hits":[]},"_scroll_id":"abc"}''\<close>

definition big_failed_doc :: json where
  "big_failed_doc = JObject [(''_shards'', failed_is 2147483648), (''hits'', hits_empty),
     (''_scroll_id'', JString ''abc'')]"

definition negative_failed_text :: string where
  \<open>negative_failed_text = ''{"_shards":{"failed":-1},"hits":{"hits":[]},"_scroll_id":"abc"}''\<close>

definition negative_failed_doc :: json where
  "negative_failed_doc = JObject [(''_shards'', failed_is (- 1)), (''hits'', hits_empty),
     (''_scroll_id'', JString ''abc'')]"

text \<open>
  A \<^verbatim>\<open>failed\<close> written with a fraction is stored as a double, whatever its value;
  the double 0.0 has all of its 64 bits clear.
\<close>

definition zero_double_text :: string where
  \<open>zero_double_text = ''{"_shards":{"failed":0.0},"hits":{"hits":[]},"_scroll_id":"abc"}''\<close>

definition zero_double_doc :: json where
  "zero_double_doc = JObject [(''_shards'', JObject [(''failed'', JDouble 0)]),
     (''hits'', hits_empty), (''_scroll_id'', JString ''abc'')]"

definition error_big_failed_text :: string where
  \<open>error_big_failed_text = ''{"error":true,"_shards":{"failed":2147483648}}''\<close>

definition error_big_failed_doc :: json where
  "error_big_failed_doc = JObject [(''error'', JBool True), (''_shards'', failed_is 2147483648)]"

text \<open>
  In the next body the scroll id holds the escape of U+0000 (backslash, \<^verbatim>\<open>u0000\<close>),
  which rapidjson decodes to the character NUL inside the string value.
\<close>

definition nul_token_text :: string where
  \<open>nul_token_text = ''{"hits":{"hits":[]},"_shards":{"failed":0},"_scroll_id":"ab''
     @ [CHR 0x5C] @ ''u0000cd"}''\<close>

definition nul_token_doc :: json where
  "nul_token_doc = JObject [(''hits'', hits_empty), (''_shards'', failed_is 0),
     (''_scroll_id'', JString (''ab'' @ [CHR 0x00] @ ''cd''))]"

text \<open>
  A parser that knows these bodies and rejects every other text stands for rapidjson at the
  concrete inputs.
\<close>

definition example_documents :: "(string \<times> json) list" where
  "example_documents =
     [(E1_text, E1_doc), (E2_text, E2_doc), (E3_text, E3_doc), (E6_text, E6_doc),
      (error_failed_text, error_failed_doc), (error_no_shards_text, error_no_shards_doc),
      (no_shards_text, no_shards_doc), (no_failed_text, no_failed_doc),
      (hits_string_text, hits_string_doc), (error_false_text, error_false_doc),
      (big_failed_text, big_failed_doc), (negative_failed_text, negative_failed_doc),
      (nul_token_text, nul_token_doc), (zero_double_text, zero_double_doc),
      (error_big_failed_text, error_big_failed_doc)]"

definition example_Parse :: parser where
  "example_Parse text =
     (case map_of example_documents text of
        Some doc \<Rightarrow> (True, doc)
      | None \<Rightarrow> (False, JNull))"

text \<open>
  The out-parameters of a caller that passes a null pointer and an empty string.
\<close>

definition fresh :: out_params where
  "fresh = \<lparr>parsedResult = None, scrollId = []\<rparr>"

section \<open>Properties\<close>

subsection \<open>The body in terms of the gates\<close>

lemma sint_int32:
  "- (2 ^ 31) \<le> i \<Longrightarrow> i < 2 ^ 31 \<Longrightarrow> sint (word_of_int i :: 32 word) = i"
  by (simp add: sint_sbintrunc' signed_take_bit_int_eq_self)

lemma not_false_eq: "not_false v = Some (v \<noteq> JBool False)"
  by (cases v) (simp_all add: not_false_def)

lemma member_not_false_object:
  "member_not_false name (JObject ms) = Some (flag_raised name ms)"
  by (cases "map_of ms name") (simp_all add: member_not_false_def flag_raised_def not_false_eq)

lemma has_member_with_object:
  "has_member_with P name (JObject ms) =
     Some (case map_of ms name of None \<Rightarrow> False | Some x \<Rightarrow> P x)"
  by (cases "map_of ms name") (simp_all add: has_member_with_def)

lemma has_member_with_other:
  "\<not> IsObject v \<Longrightarrow> has_member_with P name v = None"
  by (cases v) (simp_all add: has_member_with_def)

lemma at_weird:
  "Parse (c_str r) = (ok, doc) \<Longrightarrow> \<not> ok \<or> \<not> IsObject doc \<Longrightarrow>
   parseScrollResult_at Parse r st0 = Some (Ret_weird, entered doc st0)"
  by (simp add: parseScrollResult_at_def entered_def)

lemma shard_part_eq:
  "shard_part ms st k =
     (case shard_gate ms of Pass \<Rightarrow> k | Fail site \<Rightarrow> Some (site, st) | Abort \<Rightarrow> None)"
proof (cases "map_of ms ''_shards''")
  case None
  then show ?thesis
    by (simp add: shard_part_def shard_gate_def has_member_with_object)
next
  case (Some v)
  show ?thesis
  proof (cases "IsObject v")
    case False
    then show ?thesis using Some
      by (cases v) (simp_all add: shard_part_def shard_gate_def has_member_with_object)
  next
    case True
    then obtain ss where v: "v = JObject ss" by (cases v) auto
    show ?thesis
    proof (cases "map_of ss ''failed''")
      case None
      then show ?thesis using Some v
        by (simp add: shard_part_def shard_gate_def has_member_with_object)
    next
      case inner: (Some f)
      show ?thesis using Some v inner
        by (cases f)
          (simp_all add: shard_part_def shard_gate_def has_member_with_object sint_int32)
    qed
  qed
qed

lemma hits_part_eq:
  "hits_part ms st k =
     (case hits_gate ms of Pass \<Rightarrow> k | Fail site \<Rightarrow> Some (site, st) | Abort \<Rightarrow> None)"
proof (cases "map_of ms ''hits''")
  case None
  then show ?thesis by (simp add: hits_part_def hits_gate_def)
next
  case (Some v)
  show ?thesis
  proof (cases "IsObject v")
    case False
    then show ?thesis using Some
      by (cases v) (simp_all add: hits_part_def hits_gate_def has_member_with_other)
  next
    case True
    then obtain hs where v: "v = JObject hs" by (cases v) auto
    show ?thesis
    proof (cases "map_of hs ''hits''")
      case None
      then show ?thesis using Some v
        by (simp add: hits_part_def hits_gate_def has_member_with_object)
    next
      case inner: (Some f)
      show ?thesis using Some v inner
        by (cases f) (simp_all add: hits_part_def hits_gate_def has_member_with_object)
    qed
  qed
qed

lemma scroll_part_eq:
  "scroll_part ms st =
     (case scroll_gate ms of
        Pass \<Rightarrow> Some (Ret_success, st\<lparr>scrollId := scroll_token ms\<rparr>)
      | Fail site \<Rightarrow> Some (site, st)
      | Abort \<Rightarrow> None)"
proof (cases "map_of ms ''_scroll_id''")
  case None
  then show ?thesis
    by (simp add: scroll_part_def scroll_gate_def has_member_with_object)
next
  case (Some v)
  then show ?thesis
    by (cases v)
      (simp_all add: scroll_part_def scroll_gate_def scroll_token_def has_member_with_object)
qed

lemma at_object:
  "Parse (c_str r) = (True, JObject ms) \<Longrightarrow>
   parseScrollResult_at Parse r st0 =
     (if flag_raised ''error'' ms
      then Some (Ret_error_reported, entered (JObject ms) st0)
      else if flag_raised ''timed_out'' ms
      then Some (Ret_timed_out, entered (JObject ms) st0)
      else shard_part ms (entered (JObject ms) st0)
             (hits_part ms (entered (JObject ms) st0)
               (scroll_part ms (entered (JObject ms) st0))))"
  unfolding parseScrollResult_at_def shard_part_def hits_part_def scroll_part_def entered_def
  by (simp add: member_not_false_object Let_def del: HasMember.simps subscript.simps
      cong: if_cong)

lemma shard_gate_site:
  "shard_gate ms = Fail site \<Longrightarrow>
   site = Ret_failed_shards \<or> site = Ret_no_failed_info \<or> site = Ret_no_shards_info"
  by (auto simp: shard_gate_def split: option.splits json.splits if_splits)

lemma hits_gate_site: "hits_gate ms = Fail site \<Longrightarrow> site = Ret_not_ok"
  by (auto simp: hits_gate_def split: option.splits json.splits)

lemma scroll_gate_site: "scroll_gate ms = Fail site \<Longrightarrow> site = Ret_missing_scroll_id"
  by (auto simp: scroll_gate_def split: option.splits json.splits)

lemma scroll_gate_not_abort: "scroll_gate ms \<noteq> Abort"
  by (auto simp: scroll_gate_def split: option.splits json.splits)

lemma shard_gate_not_abort: "shard_gate ms \<noteq> Abort"
  by (auto simp: shard_gate_def split: option.splits json.splits)

lemma at_result:
  "parseScrollResult_at Parse r st0 =
     map_option (\<lambda>site. (site, exit_state site (snd (Parse (c_str r))) st0))
       (first_failure (gates (Parse (c_str r))))"
proof (cases "Parse (c_str r)")
  case (Pair ok doc)
  show ?thesis
  proof (cases "ok \<and> IsObject doc")
    case False
    then show ?thesis using Pair at_weird [of Parse r ok doc st0]
      by (auto simp: gates_def parse_gate_def exit_state_def)
  next
    case True
    then obtain ms where doc: "doc = JObject ms" by (cases doc) auto
    have P: "Parse (c_str r) = (True, JObject ms)" using Pair True doc by simp
    show ?thesis
      by (cases "shard_gate ms"; cases "hits_gate ms"; cases "scroll_gate ms")
        (auto simp: at_object [of Parse r ms st0, OF P] P gates_def parse_gate_def
          flag_gate_def shard_part_eq hits_part_eq scroll_part_eq exit_state_def
          dest: shard_gate_site hits_gate_site scroll_gate_site)
  qed
qed

lemma site_gates:
  "map_option fst (parseScrollResult_at Parse r st0) = first_failure (gates (Parse (c_str r)))"
  by (simp add: at_result option.map_comp comp_def option.map_ident)

lemma observed_result:
  "parseScrollResult Parse r st0 =
     map_option (\<lambda>site. (returned site, exit_state site (snd (Parse (c_str r))) st0))
       (first_failure (gates (Parse (c_str r))))"
  by (simp add: parseScrollResult_def at_result option.map_comp comp_def)

lemma returned_iff: "returned site = (site = Ret_success)"
  by (cases site) simp_all

subsection \<open>The concrete inputs\<close>

lemmas text_defs = E1_text_def E2_text_def E3_text_def E6_text_def error_failed_text_def
  error_no_shards_text_def no_shards_text_def no_failed_text_def hits_string_text_def
  error_false_text_def big_failed_text_def negative_failed_text_def nul_token_text_def
  zero_double_text_def error_big_failed_text_def

lemmas doc_defs = E1_doc_def E2_doc_def E3_doc_def E6_doc_def error_failed_doc_def
  error_no_shards_doc_def no_shards_doc_def no_failed_doc_def hits_string_doc_def
  error_false_doc_def big_failed_doc_def negative_failed_doc_def nul_token_doc_def
  zero_double_doc_def error_big_failed_doc_def hits_empty_def failed_is_def

lemmas gate_defs = gates_def parse_gate_def flag_gate_def flag_raised_def shard_gate_def
  hits_gate_def scroll_gate_def

lemma example_Parse_E1: "example_Parse (c_str E1_text) = (True, E1_doc)"
  by (simp add: example_Parse_def example_documents_def c_str_def text_defs)

lemma example_Parse_E2: "example_Parse (c_str E2_text) = (True, E2_doc)"
  by (simp add: example_Parse_def example_documents_def c_str_def text_defs)

lemma example_Parse_E3: "example_Parse (c_str E3_text) = (True, E3_doc)"
  by (simp add: example_Parse_def example_documents_def c_str_def text_defs)

lemma example_Parse_E6: "example_Parse (c_str E6_text) = (True, E6_doc)"
  by (simp add: example_Parse_def example_documents_def c_str_def text_defs)

lemma example_Parse_error_failed:
  "example_Parse (c_str error_failed_text) = (True, error_failed_doc)"
  by (simp add: example_Parse_def example_documents_def c_str_def text_defs)

lemma example_Parse_error_no_shards:
  "example_Parse (c_str error_no_shards_text) = (True, error_no_shards_doc)"
  by (simp add: example_Parse_def example_documents_def c_str_def text_defs)

lemma example_Parse_no_shards:
  "example_Parse (c_str no_shards_text) = (True, no_shards_doc)"
  by (simp add: example_Parse_def example_documents_def c_str_def text_defs)

lemma example_Parse_no_failed:
  "example_Parse (c_str no_failed_text) = (True, no_failed_doc)"
  by (simp add: example_Parse_def example_documents_def c_str_def text_defs)

lemma example_Parse_hits_string:
  "example_Parse (c_str hits_string_text) = (True, hits_string_doc)"
  by (simp add: example_Parse_def example_documents_def c_str_def text_defs)

lemma example_Parse_error_false:
  "example_Parse (c_str error_false_text) = (True, error_false_doc)"
  by (simp add: example_Parse_def example_documents_def c_str_def text_defs)

lemma example_Parse_big_failed:
  "example_Parse (c_str big_failed_text) = (True, big_failed_doc)"
  by (simp add: example_Parse_def example_documents_def c_str_def text_defs)

lemma example_Parse_negative_failed:
  "example_Parse (c_str negative_failed_text) = (True, negative_failed_doc)"
  by (simp add: example_Parse_def example_documents_def c_str_def text_defs)

lemma example_Parse_nul_token:
  "example_Parse (c_str nul_token_text) = (True, nul_token_doc)"
  by (simp add: example_Parse_def example_documents_def c_str_def text_defs)

lemma example_Parse_zero_double:
  "example_Parse (c_str zero_double_text) = (True, zero_double_doc)"
  by (simp add: example_Parse_def example_documents_def c_str_def text_defs)

lemma example_Parse_error_big_failed:
  "example_Parse (c_str error_big_failed_text) = (True, error_big_failed_doc)"
  by (simp add: example_Parse_def example_documents_def c_str_def text_defs)

lemma first_failure_tail_sites:
  "first_failure [flag_gate ''timed_out'' Ret_timed_out ms, shard_gate ms, hits_gate ms,
      scroll_gate ms] = Some site \<Longrightarrow>
   site \<noteq> Ret_error_reported \<and> site \<noteq> Ret_weird"
  by (cases "shard_gate ms"; cases "hits_gate ms"; cases "scroll_gate ms")
    (auto simp: flag_gate_def split: if_splits
      dest: shard_gate_site hits_gate_site scroll_gate_site)

lemma success_iff_all_pass:
  "first_failure (gates (True, JObject ms)) = Some Ret_success \<longleftrightarrow>
     \<not> flag_raised ''error'' ms \<and> \<not> flag_raised ''timed_out'' ms
     \<and> shard_gate ms = Pass \<and> hits_gate ms = Pass \<and> scroll_gate ms = Pass"
  by (cases "shard_gate ms"; cases "hits_gate ms"; cases "scroll_gate ms")
    (auto simp: gates_def parse_gate_def flag_gate_def
      dest: shard_gate_site hits_gate_site scroll_gate_site)

subsection \<open>The scroll id on failure\<close>

text \<open>
  Claim C10. Whenever \<^verbatim>\<open>parseScrollResult\<close> returns \<^verbatim>\<open>false\<close>, the
  \<^verbatim>\<open>scrollId\<close> out-parameter has the value it had before the call: line 88, the only
  assignment to it, is followed by \<^verbatim>\<open>return true\<close>.
\<close>

theorem scrollId_kept_on_failure:
  "parseScrollResult Parse r st0 = Some (False, st) \<Longrightarrow> scrollId st = scrollId st0"
  by (auto simp: observed_result returned_iff exit_state_def entered_def)

theorem scrollId_kept_on_failure_witness:
  "parseScrollResult example_Parse E3_text (fresh\<lparr>scrollId := ''old''\<rparr>) =
     Some (False, \<lparr>parsedResult = Some \<lparr>document = E3_doc\<rparr>, scrollId = ''old''\<rparr>)
   \<and> scrollId \<lparr>parsedResult = Some \<lparr>document = E3_doc\<rparr>, scrollId = ''old''\<rparr> = ''old''"
proof -
  have run: "parseScrollResult example_Parse E3_text (fresh\<lparr>scrollId := ''old''\<rparr>) =
     Some (False, \<lparr>parsedResult = Some \<lparr>document = E3_doc\<rparr>, scrollId = ''old''\<rparr>)"
    by (simp add: observed_result example_Parse_E3 gate_defs doc_defs exit_state_def
        entered_def fresh_def)
  from scrollId_kept_on_failure [OF run] run show ?thesis by simp
qed

subsection \<open>The parsed document on failure\<close>

text \<open>
  Claim C1, amended. The claim says that after a failure the \<^verbatim>\<open>parsedResult\<close>
  out-parameter exposes no parsed document. The function is documented to ``parse scroll
  result and set it into parsedResult'': line 40 replaces the pointee before anything is
  checked, and no path resets it. On every return, failure included,
  \<^verbatim>\<open>parsedResult\<close> owns a new \<^verbatim>\<open>JsonResult\<close> whose document is what the
  parser left; after a failure behind the parse check that is the whole parsed tree.
\<close>

theorem parsedResult_set_on_every_return:
  "parseScrollResult Parse r st0 = Some (b, st) \<Longrightarrow>
   parsedResult st = Some \<lparr>document = snd (Parse (c_str r))\<rparr>"
  by (auto simp: observed_result exit_state_def entered_def split: if_splits)

theorem parsedResult_set_on_every_return_witness:
  "parseScrollResult example_Parse error_failed_text fresh =
     Some (False, \<lparr>parsedResult = Some \<lparr>document = error_failed_doc\<rparr>, scrollId = []\<rparr>)
   \<and> parsedResult \<lparr>parsedResult = Some \<lparr>document = error_failed_doc\<rparr>, scrollId = []\<rparr> =
       Some \<lparr>document = snd (example_Parse (c_str error_failed_text))\<rparr>"
proof -
  have run: "parseScrollResult example_Parse error_failed_text fresh =
     Some (False, \<lparr>parsedResult = Some \<lparr>document = error_failed_doc\<rparr>, scrollId = []\<rparr>)"
    by (simp add: observed_result example_Parse_error_failed gate_defs doc_defs exit_state_def
        entered_def fresh_def)
  from parsedResult_set_on_every_return [OF run] run show ?thesis by simp
qed

text \<open>
  The claim as written fails at the body E2: the call returns \<^verbatim>\<open>false\<close> and the
  caller's pointer, null before, owns the parsed tree.
\<close>

theorem parsedResult_exposed_after_failure:
  "parseScrollResult example_Parse E2_text fresh =
     Some (False,
       \<lparr>parsedResult = Some \<lparr>document = JObject [(''error'', JBool True)]\<rparr>, scrollId = []\<rparr>)"
  by (simp add: observed_result example_Parse_E2 gate_defs doc_defs exit_state_def
      entered_def fresh_def)

subsection \<open>The value returned on failure\<close>

text \<open>
  Claim C2, amended. The claim says that a failure is a value of a closed taxonomy of error
  kinds from which the caller can tell the failed check. The function returns a
  \<^verbatim>\<open>bool\<close>. A failure is the value \<^verbatim>\<open>false\<close> and nothing else: the call
  returns \<^verbatim>\<open>false\<close> exactly when it leaves through one of the eight failing
  \<^verbatim>\<open>return\<close> statements, the one of the first gate that does not pass, and the
  returned value is the same for all eight.
\<close>

theorem failure_value_is_false:
  "parseScrollResult Parse r st0 = Some (b, st) \<Longrightarrow>
   (b = False) =
     (\<exists>site. site \<in> {Ret_weird, Ret_error_reported, Ret_timed_out, Ret_failed_shards,
                Ret_no_failed_info, Ret_no_shards_info, Ret_missing_scroll_id, Ret_not_ok}
        \<and> first_failure (gates (Parse (c_str r))) = Some site
        \<and> parseScrollResult_at Parse r st0 = Some (site, st))"
proof -
  assume run: "parseScrollResult Parse r st0 = Some (b, st)"
  then obtain site where site: "first_failure (gates (Parse (c_str r))) = Some site"
    and b: "b = returned site" and st: "st = exit_state site (snd (Parse (c_str r))) st0"
    by (auto simp: observed_result)
  have at: "parseScrollResult_at Parse r st0 = Some (site, st)"
    by (simp add: at_result site st)
  show ?thesis
    using site b at by (cases site) auto
qed

theorem failure_value_is_false_witness:
  "parseScrollResult example_Parse E3_text fresh =
     Some (False, \<lparr>parsedResult = Some \<lparr>document = E3_doc\<rparr>, scrollId = []\<rparr>)
   \<and> first_failure (gates (example_Parse (c_str E3_text))) = Some Ret_failed_shards"
proof -
  have run: "parseScrollResult example_Parse E3_text fresh =
     Some (False, \<lparr>parsedResult = Some \<lparr>document = E3_doc\<rparr>, scrollId = []\<rparr>)"
    by (simp add: observed_result example_Parse_E3 gate_defs doc_defs exit_state_def
        entered_def fresh_def)
  have "first_failure (gates (example_Parse (c_str E3_text))) = Some Ret_failed_shards"
    by (simp add: example_Parse_E3 gate_defs doc_defs)
  with failure_value_is_false [OF run] run show ?thesis by simp
qed

text \<open>
  The claim as written fails at the bodies E2 and E3: the first fails the error check, the
  second the shard check, and the caller gets the same value.
\<close>

theorem failures_indistinguishable:
  "map_option fst (parseScrollResult example_Parse E2_text fresh) = Some False
   \<and> map_option fst (parseScrollResult example_Parse E3_text fresh) = Some False
   \<and> map_option fst (parseScrollResult_at example_Parse E2_text fresh) = Some Ret_error_reported
   \<and> map_option fst (parseScrollResult_at example_Parse E3_text fresh) = Some Ret_failed_shards"
  by (simp add: observed_result site_gates example_Parse_E2 example_Parse_E3 gate_defs doc_defs
      option.map_comp comp_def)

subsection \<open>Failed shards\<close>

text \<open>
  Claim C3, amended. The claim says that every object whose \<^verbatim>\<open>_shards.failed\<close> is a
  positive integer is rejected at the failed-shards check, whatever the other fields are. The
  checks of \<^verbatim>\<open>error\<close> and \<^verbatim>\<open>timed_out\<close> come first. What holds: for every
  input that parses as an object whose first \<^verbatim>\<open>_shards\<close> member is an object whose
  first \<^verbatim>\<open>failed\<close> member is an integer \<open>i\<close> with \<open>0 < i < 2^31\<close>, the function
  returns \<^verbatim>\<open>false\<close> whatever the other fields are, with the document stored and the
  scroll id untouched; and when, in addition, \<^verbatim>\<open>error\<close> and \<^verbatim>\<open>timed_out\<close>
  are each absent or the boolean false, it leaves through the failed-shards return of line
  71, whatever \<^verbatim>\<open>hits\<close> and \<^verbatim>\<open>_scroll_id\<close> are.
\<close>

theorem failed_shards_rejected:
  assumes "Parse (c_str r) = (True, JObject ms)"
    and "map_of ms ''_shards'' = Some (JObject ss)"
    and "map_of ss ''failed'' = Some (JInt i)"
    and "0 < i" and "i < 2 ^ 31"
  shows "parseScrollResult Parse r st0 = Some (False, entered (JObject ms) st0)
    \<and> (\<not> flag_raised ''error'' ms \<and> \<not> flag_raised ''timed_out'' ms \<longrightarrow>
         parseScrollResult_at Parse r st0 = Some (Ret_failed_shards, entered (JObject ms) st0))"
proof -
  have shard: "shard_gate ms = Fail Ret_failed_shards"
    using assms by (simp add: shard_gate_def)
  show ?thesis
    using assms(1) shard
    by (simp add: observed_result at_result gates_def parse_gate_def flag_gate_def
        exit_state_def)
qed

theorem failed_shards_rejected_witness:
  "parseScrollResult example_Parse E3_text fresh = Some (False, entered E3_doc fresh)
   \<and> parseScrollResult_at example_Parse E3_text fresh =
       Some (Ret_failed_shards, entered E3_doc fresh)"
proof -
  have P: "example_Parse (c_str E3_text) = (True, JObject [(''_shards'', failed_is 1)])"
    by (simp add: example_Parse_E3 E3_doc_def)
  have S: "map_of [(''_shards'', failed_is 1)] ''_shards'' = Some (JObject [(''failed'', JInt 1)])"
    by (simp add: failed_is_def)
  have F: "map_of [(''failed'', JInt 1)] ''failed'' = Some (JInt 1)"
    by simp
  have flags: "\<not> flag_raised ''error'' [(''_shards'', failed_is 1)]
      \<and> \<not> flag_raised ''timed_out'' [(''_shards'', failed_is 1)]"
    by (simp add: flag_raised_def)
  from failed_shards_rejected [of example_Parse E3_text _ _ 1 fresh, OF P S F] flags
  show ?thesis by (simp add: E3_doc_def)
qed

text \<open>
  The claim as written fails at a body with one failed shard and the error flag set: the
  call leaves through the return of line 52, not of line 71.
\<close>

theorem error_precedes_failed_shards:
  "parseScrollResult_at example_Parse error_failed_text fresh =
     Some (Ret_error_reported, entered error_failed_doc fresh)"
  by (simp add: at_result example_Parse_error_failed gate_defs doc_defs exit_state_def)

subsection \<open>The hits check\<close>

text \<open>
  Claim C4. For an input that reaches the hits check (it parses as an object, the two flags
  are quiet and the shard check passes), the claim wants a failure whenever
  \<^verbatim>\<open>hits\<close> is missing, is not an object, or is an object without an array
  \<^verbatim>\<open>hits\<close>. The function returns \<^verbatim>\<open>false\<close> at line 97 in the first and in the
  third case. In the second case it does not return: line 85 calls
  \<^verbatim>\<open>hits.HasMember("hits")\<close> on a value that is not an object, which violates the
  precondition rapidjson asserts. Line 65 makes that test for \<^verbatim>\<open>_shards\<close>;
  line 82 omits it for \<^verbatim>\<open>hits\<close>.
\<close>

theorem hits_gate_outcomes:
  assumes "Parse (c_str r) = (True, JObject ms)"
    and "\<not> flag_raised ''error'' ms" and "\<not> flag_raised ''timed_out'' ms"
    and "shard_gate ms = Pass"
  shows "(map_of ms ''hits'' = None \<longrightarrow>
            parseScrollResult_at Parse r st0 = Some (Ret_not_ok, entered (JObject ms) st0))
    \<and> (\<forall>hs. map_of ms ''hits'' = Some (JObject hs) \<and> (\<forall>xs. map_of hs ''hits'' \<noteq> Some (JArray xs))
          \<longrightarrow> parseScrollResult_at Parse r st0 = Some (Ret_not_ok, entered (JObject ms) st0))
    \<and> (\<forall>v. map_of ms ''hits'' = Some v \<and> \<not> IsObject v
          \<longrightarrow> parseScrollResult_at Parse r st0 = None)"
proof (intro conjI allI impI)
  assume "map_of ms ''hits'' = None"
  then have "hits_gate ms = Fail Ret_not_ok" by (simp add: hits_gate_def)
  then show "parseScrollResult_at Parse r st0 = Some (Ret_not_ok, entered (JObject ms) st0)"
    using assms by (simp add: at_result gates_def parse_gate_def flag_gate_def exit_state_def)
next
  fix hs
  assume "map_of ms ''hits'' = Some (JObject hs) \<and> (\<forall>xs. map_of hs ''hits'' \<noteq> Some (JArray xs))"
  then have "hits_gate ms = Fail Ret_not_ok"
    by (auto simp: hits_gate_def split: option.splits json.splits)
  then show "parseScrollResult_at Parse r st0 = Some (Ret_not_ok, entered (JObject ms) st0)"
    using assms by (simp add: at_result gates_def parse_gate_def flag_gate_def exit_state_def)
next
  fix v
  assume "map_of ms ''hits'' = Some v \<and> \<not> IsObject v"
  then have "hits_gate ms = Abort"
    by (cases v) (simp_all add: hits_gate_def)
  then show "parseScrollResult_at Parse r st0 = None"
    using assms by (simp add: at_result gates_def parse_gate_def flag_gate_def)
qed

theorem hits_gate_outcomes_witness:
  "parseScrollResult_at example_Parse hits_string_text fresh = None"
proof -
  have P: "example_Parse (c_str hits_string_text) =
      (True, JObject [(''_shards'', failed_is 0), (''hits'', JString ''x''),
         (''_scroll_id'', JString ''abc'')])"
    by (simp add: example_Parse_hits_string hits_string_doc_def)
  have "map_of [(''_shards'', failed_is 0), (''hits'', JString ''x''),
         (''_scroll_id'', JString ''abc'')] ''hits'' = Some (JString ''x'')
      \<and> \<not> IsObject (JString ''x'')"
    by simp
  with hits_gate_outcomes [of example_Parse hits_string_text _ fresh, OF P] show ?thesis
    by (simp add: flag_raised_def shard_gate_def failed_is_def)
qed

subsection \<open>Missing shard information\<close>

text \<open>
  Claim C5, amended. The claim says that every input without usable shard information is
  rejected for that reason. An input that does not parse as an object, or whose
  \<^verbatim>\<open>error\<close> or \<^verbatim>\<open>timed_out\<close> check fails, is rejected before. What holds:
  for every input that parses as an object in which \<^verbatim>\<open>error\<close> and
  \<^verbatim>\<open>timed_out\<close> are each absent or the boolean false, if \<^verbatim>\<open>_shards\<close> is
  missing or not an object the function leaves through the return of line 79, and if
  \<^verbatim>\<open>_shards\<close> is an object whose \<^verbatim>\<open>failed\<close> is missing or not an integer
  that fits 32 bits it leaves through the return of line 75, whatever \<^verbatim>\<open>hits\<close> and
  \<^verbatim>\<open>_scroll_id\<close> are.
\<close>

theorem missing_shard_info:
  assumes "Parse (c_str r) = (True, JObject ms)"
    and "\<not> flag_raised ''error'' ms" and "\<not> flag_raised ''timed_out'' ms"
  shows "(map_of ms ''_shards'' = None \<or> (\<exists>v. map_of ms ''_shards'' = Some v \<and> \<not> IsObject v)
          \<longrightarrow> parseScrollResult_at Parse r st0 =
                Some (Ret_no_shards_info, entered (JObject ms) st0))
    \<and> (\<forall>ss. map_of ms ''_shards'' = Some (JObject ss)
            \<and> (map_of ss ''failed'' = None \<or> (\<exists>v. map_of ss ''failed'' = Some v \<and> \<not> IsInt v))
          \<longrightarrow> parseScrollResult_at Parse r st0 =
                Some (Ret_no_failed_info, entered (JObject ms) st0))"
proof (intro conjI allI impI)
  assume "map_of ms ''_shards'' = None \<or> (\<exists>v. map_of ms ''_shards'' = Some v \<and> \<not> IsObject v)"
  then have "shard_gate ms = Fail Ret_no_shards_info"
    by (auto simp: shard_gate_def split: json.splits)
  then show "parseScrollResult_at Parse r st0 = Some (Ret_no_shards_info, entered (JObject ms) st0)"
    using assms by (simp add: at_result gates_def parse_gate_def flag_gate_def exit_state_def)
next
  fix ss
  assume "map_of ms ''_shards'' = Some (JObject ss)
     \<and> (map_of ss ''failed'' = None \<or> (\<exists>v. map_of ss ''failed'' = Some v \<and> \<not> IsInt v))"
  then have "shard_gate ms = Fail Ret_no_failed_info"
    by (auto simp: shard_gate_def split: json.splits)
  then show "parseScrollResult_at Parse r st0 = Some (Ret_no_failed_info, entered (JObject ms) st0)"
    using assms by (simp add: at_result gates_def parse_gate_def flag_gate_def exit_state_def)
qed

theorem missing_shard_info_witness:
  "parseScrollResult_at example_Parse no_shards_text fresh =
     Some (Ret_no_shards_info, entered no_shards_doc fresh)
   \<and> parseScrollResult_at example_Parse no_failed_text fresh =
     Some (Ret_no_failed_info, entered no_failed_doc fresh)"
proof -
  have P1: "example_Parse (c_str no_shards_text) =
      (True, JObject [(''hits'', hits_empty), (''_scroll_id'', JString ''abc'')])"
    by (simp add: example_Parse_no_shards no_shards_doc_def)
  have P2: "example_Parse (c_str no_failed_text) =
      (True, JObject [(''_shards'', JObject []), (''hits'', hits_empty),
         (''_scroll_id'', JString ''abc'')])"
    by (simp add: example_Parse_no_failed no_failed_doc_def)
  from missing_shard_info [of example_Parse no_shards_text _ fresh, OF P1]
  have one: "parseScrollResult_at example_Parse no_shards_text fresh =
     Some (Ret_no_shards_info, entered no_shards_doc fresh)"
    by (simp add: flag_raised_def no_shards_doc_def)
  from missing_shard_info [of example_Parse no_failed_text _ fresh, OF P2]
  have two: "parseScrollResult_at example_Parse no_failed_text fresh =
     Some (Ret_no_failed_info, entered no_failed_doc fresh)"
    by (simp add: flag_raised_def no_failed_doc_def)
  from one two show ?thesis by simp
qed

text \<open>
  The claim as written fails at a body without \<^verbatim>\<open>_shards\<close>, with well-formed
  \<^verbatim>\<open>hits\<close> and \<^verbatim>\<open>_scroll_id\<close> and with the error flag set: the call leaves
  through the return of line 52.
\<close>

theorem error_precedes_missing_shards:
  "parseScrollResult_at example_Parse error_no_shards_text fresh =
     Some (Ret_error_reported, entered error_no_shards_doc fresh)
   \<and> map_of (members error_no_shards_doc) ''_shards'' = None"
  by (simp add: at_result example_Parse_error_no_shards gate_defs doc_defs exit_state_def)

subsection \<open>The order of the checks\<close>

text \<open>
  Claim C6. The checks run in the order parse, \<^verbatim>\<open>error\<close>, \<^verbatim>\<open>timed_out\<close>,
  shards, hits, scroll id, and the first one that does not pass decides the outcome: the
  \<^verbatim>\<open>return\<close> statement reached is the one \<open>first_failure\<close> finds in the list of the
  six gates, and there is none when the hits gate aborts. In particular the body E6 of the
  specification, with \<^verbatim>\<open>timed_out\<close> true and every later field well-formed, leaves
  through the timed-out return of line 60, for every parser that reads it as the tree
  \<open>E6_doc\<close>.
\<close>

theorem gates_in_order:
  "map_option fst (parseScrollResult_at Parse r st0) =
     first_failure
       [parse_gate (Parse (c_str r)),
        flag_gate ''error'' Ret_error_reported (members (snd (Parse (c_str r)))),
        flag_gate ''timed_out'' Ret_timed_out (members (snd (Parse (c_str r)))),
        shard_gate (members (snd (Parse (c_str r)))),
        hits_gate (members (snd (Parse (c_str r)))),
        scroll_gate (members (snd (Parse (c_str r))))]
   \<and> (Parse (c_str E6_text) = (True, E6_doc) \<longrightarrow>
        parseScrollResult_at Parse E6_text st0 = Some (Ret_timed_out, entered E6_doc st0))"
proof
  show "map_option fst (parseScrollResult_at Parse r st0) =
     first_failure
       [parse_gate (Parse (c_str r)),
        flag_gate ''error'' Ret_error_reported (members (snd (Parse (c_str r)))),
        flag_gate ''timed_out'' Ret_timed_out (members (snd (Parse (c_str r)))),
        shard_gate (members (snd (Parse (c_str r)))),
        hits_gate (members (snd (Parse (c_str r)))),
        scroll_gate (members (snd (Parse (c_str r))))]"
    using site_gates [of Parse r st0] by (simp add: gates_def)
  show "Parse (c_str E6_text) = (True, E6_doc) \<longrightarrow>
        parseScrollResult_at Parse E6_text st0 = Some (Ret_timed_out, entered E6_doc st0)"
    by (simp add: at_result gate_defs doc_defs exit_state_def)
qed

theorem gates_in_order_witness:
  "parseScrollResult_at example_Parse E6_text fresh = Some (Ret_timed_out, entered E6_doc fresh)"
  using gates_in_order [of example_Parse E6_text fresh] example_Parse_E6 by simp

subsection \<open>The error flag\<close>

text \<open>
  Claim C7. For an input that parses as an object: when the root has a member
  \<^verbatim>\<open>error\<close> (the first of that name) whose value is anything but the boolean false,
  the function leaves through the return of line 52; when that value is the boolean false,
  or the root has no such member, it does not, and the outcome is the one of the remaining
  checks, \<^verbatim>\<open>timed_out\<close> first.
\<close>

theorem error_flag_gate:
  assumes "Parse (c_str r) = (True, JObject ms)"
  shows "((\<exists>v. map_of ms ''error'' = Some v \<and> v \<noteq> JBool False) \<longrightarrow>
            parseScrollResult_at Parse r st0 =
              Some (Ret_error_reported, entered (JObject ms) st0))
    \<and> (map_of ms ''error'' = Some (JBool False) \<or> map_of ms ''error'' = None \<longrightarrow>
          map_option fst (parseScrollResult_at Parse r st0) \<noteq> Some Ret_error_reported
          \<and> map_option fst (parseScrollResult_at Parse r st0) =
              first_failure [flag_gate ''timed_out'' Ret_timed_out ms, shard_gate ms,
                hits_gate ms, scroll_gate ms])"
proof (intro conjI impI)
  assume "\<exists>v. map_of ms ''error'' = Some v \<and> v \<noteq> JBool False"
  then have "flag_raised ''error'' ms" by (auto simp: flag_raised_def)
  then show "parseScrollResult_at Parse r st0 =
      Some (Ret_error_reported, entered (JObject ms) st0)"
    using assms by (simp add: at_result gates_def parse_gate_def flag_gate_def exit_state_def)
next
  assume "map_of ms ''error'' = Some (JBool False) \<or> map_of ms ''error'' = None"
  then have quiet: "\<not> flag_raised ''error'' ms" by (auto simp: flag_raised_def)
  then show rest: "map_option fst (parseScrollResult_at Parse r st0) =
      first_failure [flag_gate ''timed_out'' Ret_timed_out ms, shard_gate ms,
        hits_gate ms, scroll_gate ms]"
    using assms by (simp add: site_gates gates_def parse_gate_def flag_gate_def)
  show "map_option fst (parseScrollResult_at Parse r st0) \<noteq> Some Ret_error_reported"
    using rest first_failure_tail_sites [of ms Ret_error_reported] by auto
qed

theorem error_flag_gate_witness:
  "parseScrollResult_at example_Parse E2_text fresh =
     Some (Ret_error_reported, entered E2_doc fresh)
   \<and> map_option fst (parseScrollResult_at example_Parse error_false_text fresh) =
       Some Ret_timed_out"
proof -
  have P1: "example_Parse (c_str E2_text) = (True, JObject [(''error'', JBool True)])"
    by (simp add: example_Parse_E2 E2_doc_def)
  have P2: "example_Parse (c_str error_false_text) =
      (True, JObject [(''error'', JBool False), (''timed_out'', JBool True)])"
    by (simp add: example_Parse_error_false error_false_doc_def)
  from error_flag_gate [of example_Parse E2_text _ fresh, OF P1]
  have one: "parseScrollResult_at example_Parse E2_text fresh =
     Some (Ret_error_reported, entered E2_doc fresh)"
    by (simp add: E2_doc_def)
  from error_flag_gate [of example_Parse error_false_text _ fresh, OF P2]
  have two: "map_option fst (parseScrollResult_at example_Parse error_false_text fresh) =
       Some Ret_timed_out"
    by (simp add: flag_gate_def flag_raised_def)
  from one two show ?thesis by simp
qed

subsection \<open>Success and the scroll id\<close>

text \<open>
  Claim C8. For an input that parses as an object, the function returns \<^verbatim>\<open>true\<close>
  exactly when every later gate passes; \<^verbatim>\<open>parsedResult\<close> then holds the document
  that was checked. The scroll id it hands back is the value of \<^verbatim>\<open>_scroll_id\<close> read
  through a \<^verbatim>\<open>const char*\<close> (line 88): the characters before the first NUL, and
  so the whole value only when it holds no NUL. The claim wants the value exactly as
  received.
\<close>

theorem success_token:
  assumes "Parse (c_str r) = (True, JObject ms)"
  shows "parseScrollResult Parse r st0 = Some (True, st) \<longleftrightarrow>
    (\<exists>s. \<not> flag_raised ''error'' ms \<and> \<not> flag_raised ''timed_out'' ms
        \<and> shard_gate ms = Pass \<and> hits_gate ms = Pass
        \<and> map_of ms ''_scroll_id'' = Some (JString s)
        \<and> st = st0\<lparr>parsedResult := Some \<lparr>document = JObject ms\<rparr>, scrollId := c_str s\<rparr>)"
proof -
  have run: "parseScrollResult Parse r st0 = Some (True, st) \<longleftrightarrow>
      first_failure (gates (True, JObject ms)) = Some Ret_success
      \<and> st = (entered (JObject ms) st0)\<lparr>scrollId := scroll_token ms\<rparr>"
    using assms by (auto simp: observed_result returned_iff exit_state_def)
  have scroll: "scroll_gate ms = Pass \<longleftrightarrow> (\<exists>s. map_of ms ''_scroll_id'' = Some (JString s))"
    by (auto simp: scroll_gate_def split: option.splits json.splits)
  have token: "scroll_token ms = c_str s" if "map_of ms ''_scroll_id'' = Some (JString s)" for s
    using that by (simp add: scroll_token_def)
  show ?thesis
    unfolding run success_iff_all_pass scroll
    by (auto simp: entered_def token)
qed

theorem success_token_witness:
  "parseScrollResult example_Parse nul_token_text fresh =
     Some (True, \<lparr>parsedResult = Some \<lparr>document = nul_token_doc\<rparr>, scrollId = ''ab''\<rparr>)
   \<and> map_of (members nul_token_doc) ''_scroll_id'' = Some (JString (''ab'' @ [CHR 0x00] @ ''cd''))
   \<and> parseScrollResult example_Parse E1_text fresh =
     Some (True, \<lparr>parsedResult = Some \<lparr>document = E1_doc\<rparr>, scrollId = ''abc123''\<rparr>)"
proof -
  have P1: "example_Parse (c_str nul_token_text) =
      (True, JObject [(''hits'', hits_empty), (''_shards'', failed_is 0),
         (''_scroll_id'', JString (''ab'' @ [CHR 0x00] @ ''cd''))])"
    by (simp add: example_Parse_nul_token nul_token_doc_def)
  have P2: "example_Parse (c_str E1_text) =
      (True, JObject [(''hits'', hits_empty), (''_shards'', failed_is 0),
         (''_scroll_id'', JString ''abc123'')])"
    by (simp add: example_Parse_E1 E1_doc_def)
  have one: "parseScrollResult example_Parse nul_token_text fresh =
     Some (True, \<lparr>parsedResult = Some \<lparr>document = nul_token_doc\<rparr>, scrollId = ''ab''\<rparr>)"
    by (rule iffD2 [OF success_token [of example_Parse nul_token_text _ fresh, OF P1]],
        rule exI [of _ "''ab'' @ [CHR 0x00] @ ''cd''"])
      (simp add: flag_raised_def shard_gate_def hits_gate_def failed_is_def hits_empty_def
        nul_token_doc_def fresh_def c_str_def)
  have two: "parseScrollResult example_Parse E1_text fresh =
     Some (True, \<lparr>parsedResult = Some \<lparr>document = E1_doc\<rparr>, scrollId = ''abc123''\<rparr>)"
    by (rule iffD2 [OF success_token [of example_Parse E1_text _ fresh, OF P2]],
        rule exI [of _ "''abc123''"])
      (simp add: flag_raised_def shard_gate_def hits_gate_def failed_is_def hits_empty_def
        E1_doc_def fresh_def c_str_def)
  from one two show ?thesis by (simp add: nul_token_doc_def)
qed

subsection \<open>The range of the failed counter\<close>

text \<open>
  Claim C9, amended. The claim says that every input whose \<^verbatim>\<open>failed\<close> is a
  number outside the range of a signed 32-bit integer fails at the shard check, and that
  every value of that range that is zero or negative passes it. An input whose
  \<^verbatim>\<open>error\<close> or \<^verbatim>\<open>timed_out\<close> check fails is rejected before the shard
  check, and a zero or negative value written with a fraction or an exponent is stored as a
  double and does not pass. What holds, for every input that reaches the shard check (it
  parses as an object, \<^verbatim>\<open>error\<close> and \<^verbatim>\<open>timed_out\<close> are each absent or the
  boolean false) and whose \<^verbatim>\<open>_shards\<close> is an object with a member
  \<^verbatim>\<open>failed\<close>: when \<^verbatim>\<open>failed\<close> is a number stored as an integer outside
  the range of a signed 32-bit integer, or a number stored as a double (whatever its value,
  0.0 and -1.0 included), the function leaves through the return of line 75, the one taken
  when \<^verbatim>\<open>failed\<close> is missing; when it is a number stored as an integer of that
  range that is zero or negative, the check passes and the outcome is the one of the hits
  and scroll id checks.
\<close>

theorem failed_must_be_int32:
  assumes "Parse (c_str r) = (True, JObject ms)"
    and "\<not> flag_raised ''error'' ms" and "\<not> flag_raised ''timed_out'' ms"
    and "map_of ms ''_shards'' = Some (JObject ss)"
    and "map_of ss ''failed'' = Some v"
  shows "((\<exists>i. v = JInt i \<and> (i < - (2 ^ 31) \<or> 2 ^ 31 \<le> i)) \<or> (\<exists>d. v = JDouble d) \<longrightarrow>
            parseScrollResult_at Parse r st0 =
              Some (Ret_no_failed_info, entered (JObject ms) st0))
    \<and> (\<forall>i. v = JInt i \<and> - (2 ^ 31) \<le> i \<and> i \<le> 0 \<longrightarrow>
          shard_gate ms = Pass
          \<and> map_option fst (parseScrollResult_at Parse r st0) =
              first_failure [hits_gate ms, scroll_gate ms])"
proof (intro conjI allI impI)
  assume "(\<exists>i. v = JInt i \<and> (i < - (2 ^ 31) \<or> 2 ^ 31 \<le> i)) \<or> (\<exists>d. v = JDouble d)"
  then have "shard_gate ms = Fail Ret_no_failed_info"
    using assms(4,5) by (auto simp: shard_gate_def)
  then show "parseScrollResult_at Parse r st0 =
      Some (Ret_no_failed_info, entered (JObject ms) st0)"
    using assms(1-3) by (simp add: at_result gates_def parse_gate_def flag_gate_def exit_state_def)
next
  fix i
  assume i: "v = JInt i \<and> - (2 ^ 31) \<le> i \<and> i \<le> 0"
  then have "i < 2 ^ 31" by (smt (verit) zero_less_power)
  with i show pass: "shard_gate ms = Pass"
    using assms(4,5) by (simp add: shard_gate_def)
  show "map_option fst (parseScrollResult_at Parse r st0) =
      first_failure [hits_gate ms, scroll_gate ms]"
    using assms(1-3) pass by (simp add: site_gates gates_def parse_gate_def flag_gate_def)
qed

theorem failed_must_be_int32_witness:
  "parseScrollResult_at example_Parse big_failed_text fresh =
     Some (Ret_no_failed_info, entered big_failed_doc fresh)
   \<and> parseScrollResult_at example_Parse zero_double_text fresh =
     Some (Ret_no_failed_info, entered zero_double_doc fresh)
   \<and> map_option fst (parseScrollResult_at example_Parse negative_failed_text fresh) =
       Some Ret_success"
proof -
  have P1: "example_Parse (c_str big_failed_text) =
      (True, JObject [(''_shards'', failed_is 2147483648), (''hits'', hits_empty),
         (''_scroll_id'', JString ''abc'')])"
    by (simp add: example_Parse_big_failed big_failed_doc_def)
  have P2: "example_Parse (c_str negative_failed_text) =
      (True, JObject [(''_shards'', failed_is (- 1)), (''hits'', hits_empty),
         (''_scroll_id'', JString ''abc'')])"
    by (simp add: example_Parse_negative_failed negative_failed_doc_def)
  have P3: "example_Parse (c_str zero_double_text) =
      (True, JObject [(''_shards'', JObject [(''failed'', JDouble 0)]), (''hits'', hits_empty),
         (''_scroll_id'', JString ''abc'')])"
    by (simp add: example_Parse_zero_double zero_double_doc_def)
  from failed_must_be_int32 [of example_Parse big_failed_text _ "[(''failed'', JInt 2147483648)]"
      "JInt 2147483648" fresh, OF P1]
  have one: "parseScrollResult_at example_Parse big_failed_text fresh =
     Some (Ret_no_failed_info, entered big_failed_doc fresh)"
    by (simp add: flag_raised_def failed_is_def big_failed_doc_def)
  from failed_must_be_int32 [of example_Parse negative_failed_text _ "[(''failed'', JInt (- 1))]"
      "JInt (- 1)" fresh, OF P2]
  have two: "map_option fst (parseScrollResult_at example_Parse negative_failed_text fresh) =
       Some Ret_success"
    by (simp add: flag_raised_def failed_is_def hits_gate_def scroll_gate_def hits_empty_def)
  from failed_must_be_int32 [of example_Parse zero_double_text _ "[(''failed'', JDouble 0)]"
      "JDouble 0" fresh, OF P3]
  have three: "parseScrollResult_at example_Parse zero_double_text fresh =
     Some (Ret_no_failed_info, entered zero_double_doc fresh)"
    by (simp add: flag_raised_def zero_double_doc_def)
  from one two three show ?thesis by simp
qed

text \<open>
  The claim as written fails twice. At a body with a \<^verbatim>\<open>failed\<close> of 2147483648 and
  the error flag set, the call leaves through the return of line 52, not at the shard check.
  At a body whose \<^verbatim>\<open>failed\<close> is 0.0, a value of the range that is not positive, the
  shard check does not pass: the call leaves through the return of line 75.
\<close>

theorem failed_range_counterexample:
  "parseScrollResult_at example_Parse error_big_failed_text fresh =
     Some (Ret_error_reported, entered error_big_failed_doc fresh)
   \<and> parseScrollResult_at example_Parse zero_double_text fresh =
     Some (Ret_no_failed_info, entered zero_double_doc fresh)"
  by (simp add: at_result example_Parse_error_big_failed example_Parse_zero_double gate_defs
      doc_defs exit_state_def)

end
